theory Spec2Isabelle
  imports Complex_Main
begin

section \<open>The API service (services/api.ts)\<close>

text \<open>
  JavaScript strings are modelled as \<open>string\<close>; \<open>length\<close> stands for the
  \<^verbatim>\<open>.length\<close> of the source (a count of code units). A rejected promise or a
  thrown exception is the \<open>Inl\<close> of a sum; every error the API service raises is a
  JavaScript \<^verbatim>\<open>Error\<close> carrying a message.
\<close>

datatype error = Error (message: string)

record AuthResponse =
  access_token :: string
  refresh_token :: string
  token_type :: string
  expires_in :: int

record UserInfo =
  user_id :: string
  email :: string
  name :: "string option"

text \<open>The partial profile and preferences objects the onboarding form sends.\<close>

record ProfileData =
  profile_name :: "string option"
  profile_bio :: "string option"
  profile_location_name :: "string option"
  profile_location_lat :: "real option"
  profile_location_lng :: "real option"

record PreferencesData =
  preferred_pace :: "string option"

text \<open>
  One constructor for each request the service sends. The \<open>string option\<close> of the
  authenticated requests is the bearer token of the \<^verbatim>\<open>Authorization\<close> header,
  \<open>None\<close> when the header is left out.
\<close>

datatype request =
    SignUpReq string string "string option"
  | SignInReq string string
  | GetCurrentUserReq "string option"
  | RefreshTokenReq string
  | AutoCreateProfileReq "string option"
  | CompleteOnboardingReq "string option" ProfileData PreferencesData

text \<open>
  The backend is outside the program. It answers a request given all the requests sent
  before it, so that the same request may be answered differently at different times.
  \<open>auth_reply\<close> answers the requests typed \<^verbatim>\<open>Promise<AuthResponse>\<close>,
  \<open>user_reply\<close> those typed \<^verbatim>\<open>Promise<UserInfo>\<close>, \<open>ack_reply\<close> those typed
  \<^verbatim>\<open>Promise<any>\<close> whose payload the callers drop. A reply is the outcome of
  \<^verbatim>\<open>fetch\<close> followed by \<^verbatim>\<open>handleResponse\<close>: the payload, or the error thrown.
\<close>

record backend =
  auth_reply :: "request list \<Rightarrow> request \<Rightarrow> error + AuthResponse"
  user_reply :: "request list \<Rightarrow> request \<Rightarrow> error + UserInfo"
  ack_reply :: "request list \<Rightarrow> request \<Rightarrow> error + unit"

section \<open>The world: provider state, local storage and the event trace\<close>

datatype callback = OnComplete | OnSignUpSuccess string

datatype event =
    Fetch request
  | ConsoleError string error
  | SetItem string string
  | RemoveItem string
  | SetUser "UserInfo option"
  | Invoke callback
  | SetTimeout nat callback

text \<open>
  \<open>localStorage\<close>, \<open>user\<close> and \<open>isLoading\<close> are the state the source has.
  \<open>trace\<close> is a ghost field: every effect appends its event together with the local
  storage and the user as they are right after it, so that the order of effects and the
  states a caller could observe between them can be stated.
\<close>

type_synonym storage = "string \<rightharpoonup> string"

record world =
  localStorage :: storage
  user :: "UserInfo option"
  isLoading :: bool
  trace :: "(event \<times> storage \<times> UserInfo option) list"

definition emit :: "event \<Rightarrow> world \<Rightarrow> world" where
  "emit ev w = w\<lparr>trace := trace w @ [(ev, localStorage w, user w)]\<rparr>"

definition events :: "(event \<times> storage \<times> UserInfo option) list \<Rightarrow> event list" where
  "events t = map fst t"

fun requests :: "(event \<times> storage \<times> UserInfo option) list \<Rightarrow> request list" where
  "requests [] = []"
| "requests ((Fetch r, _) # t) = r # requests t"
| "requests (_ # t) = requests t"

text \<open>The part of the trace that a call starting in \<open>w\<close> and ending in \<open>w'\<close> has added.\<close>

definition added :: "world \<Rightarrow> world \<Rightarrow> (event \<times> storage \<times> UserInfo option) list" where
  "added w w' = drop (length (trace w)) (trace w')"

definition getItem :: "string \<Rightarrow> world \<Rightarrow> string option" where
  "getItem k w = localStorage w k"

definition setItem :: "string \<Rightarrow> string \<Rightarrow> world \<Rightarrow> world" where
  "setItem k v w = emit (SetItem k v) (w\<lparr>localStorage := (localStorage w)(k \<mapsto> v)\<rparr>)"

definition removeItem :: "string \<Rightarrow> world \<Rightarrow> world" where
  "removeItem k w = emit (RemoveItem k) (w\<lparr>localStorage := (localStorage w)(k := None)\<rparr>)"

definition setUser :: "UserInfo option \<Rightarrow> world \<Rightarrow> world" where
  "setUser u w = emit (SetUser u) (w\<lparr>user := u\<rparr>)"

definition setIsLoading :: "bool \<Rightarrow> world \<Rightarrow> world" where
  "setIsLoading b w = w\<lparr>isLoading := b\<rparr>"

definition console_error :: "string \<Rightarrow> error \<Rightarrow> world \<Rightarrow> world" where
  "console_error label err w = emit (ConsoleError label err) w"

text \<open>
  \<^verbatim>\<open>getAuthHeaders\<close>: the header is attached when the stored token is truthy, that
  is present and not the empty string.
\<close>

definition getAuthHeaders :: "world \<Rightarrow> string option" where
  "getAuthHeaders w =
     (case getItem ''access_token'' w of
        None \<Rightarrow> None
      | Some token \<Rightarrow> if token = [] then None else Some token)"

definition api_signUp ::
  "backend \<Rightarrow> string \<Rightarrow> string \<Rightarrow> string option \<Rightarrow> world \<Rightarrow> (error + unit) \<times> world" where
  "api_signUp be em pw nm w =
     (ack_reply be (requests (trace w)) (SignUpReq em pw nm), emit (Fetch (SignUpReq em pw nm)) w)"

definition api_signIn ::
  "backend \<Rightarrow> string \<Rightarrow> string \<Rightarrow> world \<Rightarrow> (error + AuthResponse) \<times> world" where
  "api_signIn be em pw w =
     (auth_reply be (requests (trace w)) (SignInReq em pw), emit (Fetch (SignInReq em pw)) w)"

definition api_getCurrentUser :: "backend \<Rightarrow> world \<Rightarrow> (error + UserInfo) \<times> world" where
  "api_getCurrentUser be w =
     (user_reply be (requests (trace w)) (GetCurrentUserReq (getAuthHeaders w)),
      emit (Fetch (GetCurrentUserReq (getAuthHeaders w))) w)"

definition api_refreshToken ::
  "backend \<Rightarrow> string \<Rightarrow> world \<Rightarrow> (error + AuthResponse) \<times> world" where
  "api_refreshToken be tok w =
     (auth_reply be (requests (trace w)) (RefreshTokenReq tok), emit (Fetch (RefreshTokenReq tok)) w)"

definition api_autoCreateProfile :: "backend \<Rightarrow> world \<Rightarrow> (error + unit) \<times> world" where
  "api_autoCreateProfile be w =
     (ack_reply be (requests (trace w)) (AutoCreateProfileReq (getAuthHeaders w)),
      emit (Fetch (AutoCreateProfileReq (getAuthHeaders w))) w)"

definition api_completeOnboarding ::
  "backend \<Rightarrow> ProfileData \<Rightarrow> PreferencesData \<Rightarrow> world \<Rightarrow> (error + unit) \<times> world" where
  "api_completeOnboarding be pd pf w =
     (ack_reply be (requests (trace w)) (CompleteOnboardingReq (getAuthHeaders w) pd pf),
      emit (Fetch (CompleteOnboardingReq (getAuthHeaders w) pd pf)) w)"

section \<open>The auth provider (contexts/AuthContext.tsx)\<close>

definition isAuthenticated :: "world \<Rightarrow> bool" where
  "isAuthenticated w = (user w \<noteq> None)"

definition saveTokens :: "AuthResponse \<Rightarrow> world \<Rightarrow> world" where
  "saveTokens authResponse w =
     setItem ''refresh_token'' (refresh_token authResponse)
       (setItem ''access_token'' (access_token authResponse) w)"

definition clearTokens :: "world \<Rightarrow> world" where
  "clearTokens w = removeItem ''refresh_token'' (removeItem ''access_token'' w)"

text \<open>The body of the \<^verbatim>\<open>try\<close> block of \<^verbatim>\<open>signIn\<close>.\<close>

definition signIn_try :: "backend \<Rightarrow> string \<Rightarrow> string \<Rightarrow> world \<Rightarrow> (error + unit) \<times> world" where
  "signIn_try be em pw w =
     (case api_signIn be em pw w of
        (Inl err, w1) \<Rightarrow> (Inl err, w1)
      | (Inr authResponse, w1) \<Rightarrow>
          (case api_getCurrentUser be (saveTokens authResponse w1) of
             (Inl err, w2) \<Rightarrow> (Inl err, w2)
           | (Inr userInfo, w2) \<Rightarrow> (Inr (), setUser (Some userInfo) w2)))"

text \<open>\<^verbatim>\<open>signIn\<close>: the \<^verbatim>\<open>catch\<close> logs the error and throws it again.\<close>

definition signIn :: "backend \<Rightarrow> string \<Rightarrow> string \<Rightarrow> world \<Rightarrow> (error + unit) \<times> world" where
  "signIn be em pw w =
     (case signIn_try be em pw w of
        (Inl err, w1) \<Rightarrow> (Inl err, console_error ''Sign in error:'' err w1)
      | (Inr u, w1) \<Rightarrow> (Inr u, w1))"

text \<open>
  \<^verbatim>\<open>signIn\<close> is an \<^verbatim>\<open>async\<close> function: it is suspended while each of its two requests
  is pending, and other handlers of the page may run then. \<open>signIn_interleaved\<close> is the same
  body with what runs in those two gaps as parameters: \<open>during_exchange\<close> while the sign-in
  request is pending, \<open>during_fetch\<close> while the identity request is pending. After each
  \<^verbatim>\<open>await\<close> the body goes on with the state it finds; it does not read local storage
  again before \<^verbatim>\<open>setUser\<close>. With \<open>id\<close> for both gaps it is \<open>signIn\<close>.
\<close>

definition signIn_interleaved ::
  "backend \<Rightarrow> string \<Rightarrow> string \<Rightarrow> (world \<Rightarrow> world) \<Rightarrow> (world \<Rightarrow> world) \<Rightarrow> world
    \<Rightarrow> (error + unit) \<times> world" where
  "signIn_interleaved be em pw during_exchange during_fetch w =
     (case api_signIn be em pw w of
        (Inl err, w1) \<Rightarrow> (Inl err, console_error ''Sign in error:'' err (during_exchange w1))
      | (Inr authResponse, w1) \<Rightarrow>
          (case api_getCurrentUser be (saveTokens authResponse (during_exchange w1)) of
             (Inl err, w2) \<Rightarrow> (Inl err, console_error ''Sign in error:'' err (during_fetch w2))
           | (Inr userInfo, w2) \<Rightarrow> (Inr (), setUser (Some userInfo) (during_fetch w2))))"

definition signUp ::
  "backend \<Rightarrow> string \<Rightarrow> string \<Rightarrow> string option \<Rightarrow> world \<Rightarrow> (error + unit) \<times> world" where
  "signUp be em pw nm w =
     (case api_signUp be em pw nm w of
        (Inl err, w1) \<Rightarrow> (Inl err, console_error ''Sign up error:'' err w1)
      | (Inr u, w1) \<Rightarrow> (Inr u, w1))"

definition signOut :: "world \<Rightarrow> world" where
  "signOut w = setUser None (clearTokens w)"

text \<open>
  The body of the \<^verbatim>\<open>try\<close> block of \<^verbatim>\<open>refreshAuth\<close>. \<^verbatim>\<open>!refreshToken\<close> holds
  when the item is missing and when it is the empty string.
\<close>

definition refreshAuth_try :: "backend \<Rightarrow> world \<Rightarrow> (error + unit) \<times> world" where
  "refreshAuth_try be w =
     (case getItem ''refresh_token'' w of
        None \<Rightarrow> (Inl (Error ''No refresh token available''), w)
      | Some refreshToken \<Rightarrow>
          if refreshToken = [] then (Inl (Error ''No refresh token available''), w)
          else
            (case api_refreshToken be refreshToken w of
               (Inl err, w1) \<Rightarrow> (Inl err, w1)
             | (Inr authResponse, w1) \<Rightarrow>
                 (case api_getCurrentUser be (saveTokens authResponse w1) of
                    (Inl err, w2) \<Rightarrow> (Inl err, w2)
                  | (Inr userInfo, w2) \<Rightarrow> (Inr (), setUser (Some userInfo) w2))))"

text \<open>
  \<^verbatim>\<open>refreshAuth\<close>: the \<^verbatim>\<open>catch\<close> logs the error and calls \<^verbatim>\<open>signOut\<close>; it does
  not throw.
\<close>

definition refreshAuth :: "backend \<Rightarrow> world \<Rightarrow> (error + unit) \<times> world" where
  "refreshAuth be w =
     (case refreshAuth_try be w of
        (Inl err, w1) \<Rightarrow> (Inr (), signOut (console_error ''Token refresh error:'' err w1))
      | (Inr u, w1) \<Rightarrow> (Inr u, w1))"

text \<open>The effect run once when the provider mounts.\<close>

definition initializeAuth_try :: "backend \<Rightarrow> world \<Rightarrow> (error + unit) \<times> world" where
  "initializeAuth_try be w =
     (case getItem ''access_token'' w of
        None \<Rightarrow> (Inr (), w)
      | Some token \<Rightarrow>
          if token = [] then (Inr (), w)
          else
            (case api_getCurrentUser be w of
               (Inl err, w1) \<Rightarrow> (Inl err, w1)
             | (Inr userInfo, w1) \<Rightarrow> (Inr (), setUser (Some userInfo) w1)))"

definition initializeAuth :: "backend \<Rightarrow> world \<Rightarrow> world" where
  "initializeAuth be w =
     setIsLoading False
       (case initializeAuth_try be w of
          (Inr u, w1) \<Rightarrow> w1
        | (Inl err, w1) \<Rightarrow>
            (case refreshAuth be (console_error ''Auth initialization error:'' err w1) of
               (Inl refreshError, w2) \<Rightarrow>
                 signOut (console_error ''Token refresh failed:'' refreshError w2)
             | (Inr u, w2) \<Rightarrow> w2))"

section \<open>The application flow (App.tsx)\<close>

record flow =
  showSignUp :: bool
  showOnboarding :: bool
  hasProfile :: bool
  showConfirmEmail :: bool
  signUpEmail :: string

text \<open>The initial values of the \<^verbatim>\<open>useState\<close> hooks of \<^verbatim>\<open>AppContent\<close>.\<close>

definition initial_flow :: flow where
  "initial_flow =
     \<lparr>showSignUp = False, showOnboarding = False, hasProfile = False,
      showConfirmEmail = False, signUpEmail = []\<rparr>"

definition handleOnboardingComplete :: "flow \<Rightarrow> flow" where
  "handleOnboardingComplete f = f\<lparr>showOnboarding := False, hasProfile := True\<rparr>"

definition handleSignOut :: "flow \<times> world \<Rightarrow> flow \<times> world" where
  "handleSignOut fw =
     (case fw of (f, w) \<Rightarrow>
        (f\<lparr>hasProfile := False, showOnboarding := False, showConfirmEmail := False,
           signUpEmail := []\<rparr>,
         signOut w))"

definition handleSignUpSuccess :: "string \<Rightarrow> flow \<Rightarrow> flow" where
  "handleSignUpSuccess em f = f\<lparr>signUpEmail := em, showSignUp := False, showConfirmEmail := True\<rparr>"

definition handleEmailConfirmed :: "flow \<Rightarrow> flow" where
  "handleEmailConfirmed f = f\<lparr>showConfirmEmail := False, signUpEmail := []\<rparr>"

definition handleBackToSignUp :: "flow \<Rightarrow> flow" where
  "handleBackToSignUp f = f\<lparr>showConfirmEmail := False, showSignUp := True\<rparr>"

text \<open>
  What \<^verbatim>\<open>AppContent\<close> renders: \<open>Loading\<close> is the loading card, \<open>ConfirmEmail\<close>,
  \<open>SignUp\<close>, \<open>SignIn\<close> and \<open>Onboarding\<close> are the forms \<^verbatim>\<open>ConfirmEmailForm\<close>,
  \<^verbatim>\<open>SignUpForm\<close>, \<^verbatim>\<open>LoginForm\<close> and \<^verbatim>\<open>OnboardingForm\<close>, \<open>WelcomeGate\<close> is
  the welcome card with the start button, \<open>Main\<close> is the main application.
\<close>

datatype screen = Loading | ConfirmEmail | SignIn | SignUp | WelcomeGate | Onboarding | Main

text \<open>
  The cascade of returns of \<^verbatim>\<open>AppContent\<close>, in the order of the source. The first
  two arguments are \<^verbatim>\<open>isLoading\<close> and \<^verbatim>\<open>isAuthenticated\<close> as \<^verbatim>\<open>useAuth\<close> hands
  them to the component.
\<close>

definition AppContent :: "bool \<Rightarrow> bool \<Rightarrow> flow \<Rightarrow> screen" where
  "AppContent authLoading authenticated f =
     (if authLoading then Loading
      else if \<not> authenticated then
        (if showConfirmEmail f then ConfirmEmail
         else if showSignUp f then SignUp else SignIn)
      else if authenticated \<and> \<not> hasProfile f \<and> \<not> showOnboarding f then WelcomeGate
      else if showOnboarding f then Onboarding
      else Main)"

definition screens :: "screen list" where
  "screens = [Loading, ConfirmEmail, SignIn, SignUp, WelcomeGate, Onboarding, Main]"

section \<open>The sign-up form (components/auth/SignUpForm.tsx)\<close>

record SignUpForm =
  su_email :: string
  su_password :: string
  su_confirmPassword :: string
  su_name :: string
  su_error :: string
  su_success :: string
  su_isLoading :: bool

text \<open>\<^verbatim>\<open>s || undefined\<close> on a string: the empty string is falsy.\<close>

definition or_undefined :: "string \<Rightarrow> string option" where
  "or_undefined s = (if s = [] then None else Some s)"

text \<open>
  \<^verbatim>\<open>handleSubmit\<close> of the sign-up form. The call of \<^verbatim>\<open>onSignUpSuccess\<close> is
  scheduled with \<^verbatim>\<open>setTimeout\<close>, which the model records as an event. What the
  \<^verbatim>\<open>catch\<close> receives is always an \<^verbatim>\<open>Error\<close> here, so the message shown is the
  message of the error.
\<close>

definition SignUpForm_handleSubmit ::
  "backend \<Rightarrow> SignUpForm \<times> world \<Rightarrow> SignUpForm \<times> world" where
  "SignUpForm_handleSubmit be fw =
     (case fw of (form, w) \<Rightarrow>
        let f1 = form\<lparr>su_error := [], su_success := []\<rparr> in
        if su_password f1 \<noteq> su_confirmPassword f1 then
          (f1\<lparr>su_error := ''Passwords do not match''\<rparr>, w)
        else if length (su_password f1) < 8 then
          (f1\<lparr>su_error := ''Password must be at least 8 characters long''\<rparr>, w)
        else
          let f2 = f1\<lparr>su_isLoading := True\<rparr> in
          (case signUp be (su_email f2) (su_password f2) (or_undefined (su_name f2)) w of
             (Inr u, w1) \<Rightarrow>
               (f2\<lparr>su_success :=
                     ''Account created successfully! Redirecting to email confirmation...'',
                   su_isLoading := False\<rparr>,
                emit (SetTimeout 1500 (OnSignUpSuccess (su_email f2))) w1)
           | (Inl err, w1) \<Rightarrow> (f2\<lparr>su_error := message err, su_isLoading := False\<rparr>, w1)))"

section \<open>The onboarding form\<close>

text \<open>
  The \<^verbatim>\<open>OnboardingForm\<close> component in its version with the location fields. The other
  version of the component in the repository collects other preference fields; its
  \<^verbatim>\<open>handleSubmit\<close> has the same two calls in the same \<^verbatim>\<open>try\<close>.
\<close>

record OnboardingForm =
  ob_isLoading :: bool
  ob_error :: string
  ob_name :: string
  ob_bio :: string
  ob_locationName :: string
  ob_locationLat :: "real option"
  ob_locationLng :: "real option"
  ob_preferredPace :: string

text \<open>\<^verbatim>\<open>x || undefined\<close> on a number or null: null and zero are falsy.\<close>

definition num_or_undefined :: "real option \<Rightarrow> real option" where
  "num_or_undefined x = (case x of None \<Rightarrow> None | Some v \<Rightarrow> if v = 0 then None else Some v)"

definition profileData :: "OnboardingForm \<Rightarrow> ProfileData" where
  "profileData form =
     \<lparr>profile_name = or_undefined (ob_name form),
      profile_bio = or_undefined (ob_bio form),
      profile_location_name = or_undefined (ob_locationName form),
      profile_location_lat = num_or_undefined (ob_locationLat form),
      profile_location_lng = num_or_undefined (ob_locationLng form)\<rparr>"

definition preferencesData :: "OnboardingForm \<Rightarrow> PreferencesData" where
  "preferencesData form = \<lparr>preferred_pace = or_undefined (ob_preferredPace form)\<rparr>"

text \<open>
  The body of the \<^verbatim>\<open>try\<close> block of the form's \<^verbatim>\<open>handleSubmit\<close>. The callback
  \<^verbatim>\<open>onComplete\<close> is a parameter; it acts on the flow state of its owner, and its call is
  recorded as an event.
\<close>

definition OnboardingForm_submit_try ::
  "backend \<Rightarrow> (flow \<Rightarrow> flow) \<Rightarrow> OnboardingForm \<Rightarrow> flow \<times> world \<Rightarrow> (error + unit) \<times> flow \<times> world" where
  "OnboardingForm_submit_try be onComplete form fw =
     (case fw of (f, w) \<Rightarrow>
        (case api_autoCreateProfile be w of
           (Inl err, w1) \<Rightarrow> (Inl err, f, w1)
         | (Inr u, w1) \<Rightarrow>
             (case api_completeOnboarding be (profileData form) (preferencesData form) w1 of
                (Inl err, w2) \<Rightarrow> (Inl err, f, w2)
              | (Inr u, w2) \<Rightarrow> (Inr (), onComplete f, emit (Invoke OnComplete) w2))))"

text \<open>
  \<^verbatim>\<open>handleSubmit\<close> of the onboarding form: the \<^verbatim>\<open>catch\<close> shows the message of the
  error, the \<^verbatim>\<open>finally\<close> ends the loading state.
\<close>

definition OnboardingForm_handleSubmit ::
  "backend \<Rightarrow> (flow \<Rightarrow> flow) \<Rightarrow> OnboardingForm \<times> flow \<times> world \<Rightarrow> OnboardingForm \<times> flow \<times> world" where
  "OnboardingForm_handleSubmit be onComplete ffw =
     (case ffw of (form, f, w) \<Rightarrow>
        let form1 = form\<lparr>ob_error := [], ob_isLoading := True\<rparr> in
        (case OnboardingForm_submit_try be onComplete form1 (f, w) of
           (Inl err, f1, w1) \<Rightarrow> (form1\<lparr>ob_error := message err, ob_isLoading := False\<rparr>, f1, w1)
         | (Inr u, f1, w1) \<Rightarrow> (form1\<lparr>ob_isLoading := False\<rparr>, f1, w1)))"

section \<open>Example inputs\<close>

definition initial_world :: world where
  "initial_world = \<lparr>localStorage = Map.empty, user = None, isLoading = True, trace = []\<rparr>"

definition example_tokens :: AuthResponse where
  "example_tokens =
     \<lparr>access_token = ''at-1'', refresh_token = ''rt-1'', token_type = ''Bearer'',
      expires_in = 3600\<rparr>"

definition example_user :: UserInfo where
  "example_user = \<lparr>user_id = ''u-1'', email = ''a@b.com'', name = None\<rparr>"

definition backend_ok :: backend where
  "backend_ok =
     \<lparr>auth_reply = (\<lambda>h q. Inr example_tokens),
      user_reply = (\<lambda>h q. Inr example_user),
      ack_reply = (\<lambda>h q. Inr ())\<rparr>"

definition backend_me_401 :: backend where
  "backend_me_401 =
     \<lparr>auth_reply = (\<lambda>h q. Inr example_tokens),
      user_reply = (\<lambda>h q. Inl (Error ''HTTP error! status: 401'')),
      ack_reply = (\<lambda>h q. Inr ())\<rparr>"

definition backend_down :: backend where
  "backend_down =
     \<lparr>auth_reply = (\<lambda>h q. Inl (Error ''HTTP error! status: 500'')),
      user_reply = (\<lambda>h q. Inl (Error ''HTTP error! status: 500'')),
      ack_reply = (\<lambda>h q. Inl (Error ''HTTP error! status: 500''))\<rparr>"

definition stale_world :: world where
  "stale_world =
     \<lparr>localStorage = [''access_token'' \<mapsto> ''at-0'', ''refresh_token'' \<mapsto> ''rt-0''],
      user = None, isLoading = False, trace = []\<rparr>"

definition signed_in_world :: world where
  "signed_in_world =
     \<lparr>localStorage = [''access_token'' \<mapsto> ''at-0'', ''refresh_token'' \<mapsto> ''rt-0''],
      user = Some example_user, isLoading = False, trace = []\<rparr>"

text \<open>
  A flow state and a world that the handlers themselves produce. The user signs up; before
  the timer of the sign-up form fires, they switch to the login form and submit it; the
  timer fires (\<^verbatim>\<open>handleSignUpSuccess\<close>) and the confirmation form replaces the login
  form; they press its back button (\<^verbatim>\<open>handleBackToSignUp\<close>); then the pending
  \<^verbatim>\<open>signIn\<close> resolves.
\<close>

definition raced_flow :: flow where
  "raced_flow = handleBackToSignUp (handleSignUpSuccess ''a@b.com'' initial_flow)"

definition raced_world :: world where
  "raced_world = snd (signIn backend_ok ''a@b.com'' ''Passw0rd!'' (setIsLoading False initial_world))"

definition backend_onboarding_500 :: backend where
  "backend_onboarding_500 =
     \<lparr>auth_reply = (\<lambda>h q. Inr example_tokens),
      user_reply = (\<lambda>h q. Inr example_user),
      ack_reply = (\<lambda>h q. case q of
          CompleteOnboardingReq b pd pf \<Rightarrow> Inl (Error ''HTTP error! status: 500'')
        | _ \<Rightarrow> Inr ())\<rparr>"

definition example_onboarding :: OnboardingForm where
  "example_onboarding =
     \<lparr>ob_isLoading = False, ob_error = [], ob_name = ''Ann'', ob_bio = [], ob_locationName = [],
      ob_locationLat = None, ob_locationLng = None, ob_preferredPace = ''casual''\<rparr>"

definition signup_form :: "string \<Rightarrow> string \<Rightarrow> SignUpForm" where
  "signup_form pw confirm =
     \<lparr>su_email = ''a@b.com'', su_password = pw, su_confirmPassword = confirm, su_name = [],
      su_error = [], su_success = [], su_isLoading = False\<rparr>"

section \<open>Basic facts about the primitives\<close>

lemmas prim_defs = setItem_def removeItem_def setUser_def console_error_def getItem_def
  saveTokens_def clearTokens_def signOut_def getAuthHeaders_def

lemmas api_defs = api_signUp_def api_signIn_def api_getCurrentUser_def api_refreshToken_def
  api_autoCreateProfile_def api_completeOnboarding_def

lemma emit_fields [simp]:
  "localStorage (emit ev w) = localStorage w"
  "user (emit ev w) = user w"
  "isLoading (emit ev w) = isLoading w"
  "trace (emit ev w) = trace w @ [(ev, localStorage w, user w)]"
  by (simp_all add: emit_def)

lemma requests_append [simp]: "requests (t @ u) = requests t @ requests u"
  by (induction t rule: requests.induct) simp_all

lemma added_self [simp]: "added w w = []"
  by (simp add: added_def)

lemma signOut_fields:
  "localStorage (signOut w) = (localStorage w)(''access_token'' := None, ''refresh_token'' := None)"
  "user (signOut w) = None"
  "isLoading (signOut w) = isLoading w"
  by (simp_all add: signOut_def clearTokens_def setUser_def removeItem_def)

section \<open>Sign-in\<close>

text \<open>
  C1. When the token exchange of \<^verbatim>\<open>signIn\<close> succeeds with the response \<open>r\<close> and
  the identity fetch that follows fails with \<open>err\<close>, then \<^verbatim>\<open>signIn\<close> rejects with
  \<open>err\<close>, both tokens of \<open>r\<close> stay in local storage, and the current user is what it
  was before the call (unset, when it was unset). The call has stored the tokens and removed
  nothing: its events are the two requests, the two writes and the log of the error.
\<close>
theorem signIn_identity_fetch_fails:
  assumes "api_signIn be em pw w = (Inr r, w1)"
    and "fst (api_getCurrentUser be (saveTokens r w1)) = Inl err"
  shows "fst (signIn be em pw w) = Inl err
    \<and> localStorage (snd (signIn be em pw w)) ''access_token'' = Some (access_token r)
    \<and> localStorage (snd (signIn be em pw w)) ''refresh_token'' = Some (refresh_token r)
    \<and> user (snd (signIn be em pw w)) = user w
    \<and> events (added w (snd (signIn be em pw w))) =
        [Fetch (SignInReq em pw), SetItem ''access_token'' (access_token r),
         SetItem ''refresh_token'' (refresh_token r),
         Fetch (GetCurrentUserReq (getAuthHeaders (saveTokens r w1))),
         ConsoleError ''Sign in error:'' err]"
  using assms
  by (auto simp: signIn_def signIn_try_def prim_defs api_defs added_def events_def split: prod.splits sum.splits)

theorem signIn_identity_fetch_fails_witness:
  "api_signIn backend_me_401 ''a@b.com'' ''Passw0rd!'' initial_world
     = (Inr example_tokens, emit (Fetch (SignInReq ''a@b.com'' ''Passw0rd!'')) initial_world)
   \<and> fst (api_getCurrentUser backend_me_401
         (saveTokens example_tokens (emit (Fetch (SignInReq ''a@b.com'' ''Passw0rd!'')) initial_world)))
       = Inl (Error ''HTTP error! status: 401'')
   \<and> fst (signIn backend_me_401 ''a@b.com'' ''Passw0rd!'' initial_world)
       = Inl (Error ''HTTP error! status: 401'')
   \<and> localStorage (snd (signIn backend_me_401 ''a@b.com'' ''Passw0rd!'' initial_world)) ''access_token''
       = Some ''at-1''
   \<and> localStorage (snd (signIn backend_me_401 ''a@b.com'' ''Passw0rd!'' initial_world)) ''refresh_token''
       = Some ''rt-1''
   \<and> user (snd (signIn backend_me_401 ''a@b.com'' ''Passw0rd!'' initial_world)) = None"
proof -
  have h1: "api_signIn backend_me_401 ''a@b.com'' ''Passw0rd!'' initial_world
     = (Inr example_tokens, emit (Fetch (SignInReq ''a@b.com'' ''Passw0rd!'')) initial_world)"
    by (simp add: api_signIn_def backend_me_401_def)
  have h2: "fst (api_getCurrentUser backend_me_401
         (saveTokens example_tokens (emit (Fetch (SignInReq ''a@b.com'' ''Passw0rd!'')) initial_world)))
       = Inl (Error ''HTTP error! status: 401'')"
    by (simp add: api_getCurrentUser_def backend_me_401_def)
  show ?thesis
    using signIn_identity_fetch_fails [OF h1 h2] h1 h2
    by (simp add: example_tokens_def initial_world_def)
qed

lemma signIn_interleaved_id: "signIn_interleaved be em pw id id w = signIn be em pw w"
  by (simp add: signIn_interleaved_def signIn_def signIn_try_def split: prod.splits sum.splits)

lemma signIn_uninterrupted:
  assumes "api_signIn be em pw w = (Inr r, w1)"
    and "api_getCurrentUser be (saveTokens r w1) = (Inr u, w2)"
  shows "signIn be em pw w = (Inr (), setUser (Some u) w2)
    \<and> events (added w (setUser (Some u) w2)) =
        [Fetch (SignInReq em pw), SetItem ''access_token'' (access_token r),
         SetItem ''refresh_token'' (refresh_token r),
         Fetch (GetCurrentUserReq (or_undefined (access_token r))),
         SetUser (Some u)]
    \<and> (\<forall>(ev, st, usr) \<in> set (added w (setUser (Some u) w2)).
          usr = user w \<or> st ''access_token'' = Some (access_token r))
    \<and> (user w = None \<longrightarrow>
         (\<forall>(ev, st, usr) \<in> set (added w (setUser (Some u) w2)).
            usr \<noteq> None \<longrightarrow> st ''access_token'' = Some (access_token r)))"
  using assms
  by (auto simp: signIn_def signIn_try_def prim_defs api_defs added_def events_def or_undefined_def)

text \<open>
  C5, as the code has it. Whatever runs while \<^verbatim>\<open>signIn\<close> is suspended, a call that
  resolves has written both tokens of the response before it issued the identity request,
  which is sent in a state that holds the access token of the response; \<^verbatim>\<open>signIn\<close>
  leaves the current user alone until its last step, which sets it to the user of the
  identity reply. The state it leaves then holds the access token of the response provided
  that what ran while the identity request was pending has kept the stored access token.
  When nothing runs in the two gaps, the call is \<open>signIn\<close>; its events are, in this order,
  the sign-in request, the two writes, the identity request and the update of the user; and
  in every state recorded along it the current user is still the one from before the call,
  or local storage holds the access token of the response. So, when no user was set before
  such a call, no state along it has a user and no stored access token.
\<close>
theorem signIn_interleaved_persists_first:
  assumes "signIn_interleaved be em pw g1 g2 w = (Inr (), w')"
  shows "\<exists>r w1 u w2.
      api_signIn be em pw w = (Inr r, w1)
    \<and> api_getCurrentUser be (saveTokens r (g1 w1)) = (Inr u, w2)
    \<and> events (added (g1 w1) w2) =
        [SetItem ''access_token'' (access_token r), SetItem ''refresh_token'' (refresh_token r),
         Fetch (GetCurrentUserReq (or_undefined (access_token r)))]
    \<and> localStorage w2 ''access_token'' = Some (access_token r)
    \<and> user w2 = user (g1 w1)
    \<and> w' = setUser (Some u) (g2 w2)
    \<and> user w' = Some u
    \<and> (localStorage (g2 w2) ''access_token'' = localStorage w2 ''access_token'' \<longrightarrow>
         localStorage w' ''access_token'' = Some (access_token r))
    \<and> (g1 = id \<and> g2 = id \<longrightarrow>
         signIn be em pw w = (Inr (), w')
       \<and> events (added w w') =
          [Fetch (SignInReq em pw), SetItem ''access_token'' (access_token r),
           SetItem ''refresh_token'' (refresh_token r),
           Fetch (GetCurrentUserReq (or_undefined (access_token r))),
           SetUser (Some u)]
       \<and> (\<forall>(ev, st, usr) \<in> set (added w w').
             usr = user w \<or> st ''access_token'' = Some (access_token r))
       \<and> (user w = None \<longrightarrow>
           (\<forall>(ev, st, usr) \<in> set (added w w').
              usr \<noteq> None \<longrightarrow> st ''access_token'' = Some (access_token r))))"
proof -
  obtain r w1 where r: "api_signIn be em pw w = (Inr r, w1)"
    using assms by (auto simp: signIn_interleaved_def split: prod.splits sum.splits)
  obtain u w2 where u: "api_getCurrentUser be (saveTokens r (g1 w1)) = (Inr u, w2)"
    using assms r by (auto simp: signIn_interleaved_def split: prod.splits sum.splits)
  have w': "w' = setUser (Some u) (g2 w2)"
    using assms r u by (simp add: signIn_interleaved_def)
  have w2: "w2 = emit (Fetch (GetCurrentUserReq (getAuthHeaders (saveTokens r (g1 w1)))))
      (saveTokens r (g1 w1))"
    using u by (simp add: api_getCurrentUser_def)
  have hdr: "getAuthHeaders (saveTokens r (g1 w1)) = or_undefined (access_token r)"
    by (simp add: prim_defs or_undefined_def)
  have ev: "events (added (g1 w1) w2) =
        [SetItem ''access_token'' (access_token r), SetItem ''refresh_token'' (refresh_token r),
         Fetch (GetCurrentUserReq (or_undefined (access_token r)))]"
    unfolding w2 hdr by (simp add: prim_defs added_def events_def)
  have tok: "localStorage w2 ''access_token'' = Some (access_token r)"
    unfolding w2 by (simp add: prim_defs)
  have usr: "user w2 = user (g1 w1)"
    unfolding w2 by (simp add: prim_defs)
  have fin: "user w' = Some u"
    unfolding w' by (simp add: setUser_def)
  have keep: "localStorage (g2 w2) ''access_token'' = localStorage w2 ''access_token'' \<longrightarrow>
         localStorage w' ''access_token'' = Some (access_token r)"
    unfolding w' using tok by (simp add: setUser_def)
  have unint: "g1 = id \<and> g2 = id \<longrightarrow>
         signIn be em pw w = (Inr (), w')
       \<and> events (added w w') =
          [Fetch (SignInReq em pw), SetItem ''access_token'' (access_token r),
           SetItem ''refresh_token'' (refresh_token r),
           Fetch (GetCurrentUserReq (or_undefined (access_token r))),
           SetUser (Some u)]
       \<and> (\<forall>(ev, st, usr) \<in> set (added w w').
             usr = user w \<or> st ''access_token'' = Some (access_token r))
       \<and> (user w = None \<longrightarrow>
           (\<forall>(ev, st, usr) \<in> set (added w w').
              usr \<noteq> None \<longrightarrow> st ''access_token'' = Some (access_token r)))"
  proof (intro impI)
    assume "g1 = id \<and> g2 = id"
    then have g: "g1 = id" "g2 = id" by simp_all
    from u have u': "api_getCurrentUser be (saveTokens r w1) = (Inr u, w2)"
      unfolding g by simp
    from w' have w'': "w' = setUser (Some u) w2"
      unfolding g by simp
    from signIn_uninterrupted [OF r u'] show "signIn be em pw w = (Inr (), w')
       \<and> events (added w w') =
          [Fetch (SignInReq em pw), SetItem ''access_token'' (access_token r),
           SetItem ''refresh_token'' (refresh_token r),
           Fetch (GetCurrentUserReq (or_undefined (access_token r))),
           SetUser (Some u)]
       \<and> (\<forall>(ev, st, usr) \<in> set (added w w').
             usr = user w \<or> st ''access_token'' = Some (access_token r))
       \<and> (user w = None \<longrightarrow>
           (\<forall>(ev, st, usr) \<in> set (added w w').
              usr \<noteq> None \<longrightarrow> st ''access_token'' = Some (access_token r)))"
      unfolding w'' .
  qed
  show ?thesis
    apply (rule exI [of _ r], rule exI [of _ w1], rule exI [of _ u], rule exI [of _ w2])
    using r u ev tok usr w' fin keep unint apply (intro conjI)
            apply assumption+
    done
qed

theorem signIn_interleaved_persists_first_witness:
  "signIn_interleaved backend_ok ''a@b.com'' ''Passw0rd!'' id id initial_world
     = (Inr (), snd (signIn_interleaved backend_ok ''a@b.com'' ''Passw0rd!'' id id initial_world))
   \<and> user initial_world = None
   \<and> user (snd (signIn_interleaved backend_ok ''a@b.com'' ''Passw0rd!'' id id initial_world))
       = Some example_user
   \<and> localStorage (snd (signIn_interleaved backend_ok ''a@b.com'' ''Passw0rd!'' id id initial_world))
       ''access_token'' = Some ''at-1''
   \<and> events (added initial_world
        (snd (signIn_interleaved backend_ok ''a@b.com'' ''Passw0rd!'' id id initial_world))) =
        [Fetch (SignInReq ''a@b.com'' ''Passw0rd!''), SetItem ''access_token'' ''at-1'',
         SetItem ''refresh_token'' ''rt-1'', Fetch (GetCurrentUserReq (Some ''at-1'')),
         SetUser (Some example_user)]"
proof -
  let ?w' = "snd (signIn_interleaved backend_ok ''a@b.com'' ''Passw0rd!'' id id initial_world)"
  have h: "signIn_interleaved backend_ok ''a@b.com'' ''Passw0rd!'' id id initial_world = (Inr (), ?w')"
    by (simp add: signIn_interleaved_def api_defs backend_ok_def)
  have a: "api_signIn backend_ok ''a@b.com'' ''Passw0rd!'' initial_world
     = (Inr example_tokens, emit (Fetch (SignInReq ''a@b.com'' ''Passw0rd!'')) initial_world)"
    by (simp add: api_signIn_def backend_ok_def)
  have n: "user initial_world = None"
    by (simp add: initial_world_def)
  from signIn_interleaved_persists_first [OF h] obtain r w1 u w2 where
    r: "api_signIn backend_ok ''a@b.com'' ''Passw0rd!'' initial_world = (Inr r, w1)"
    and u: "api_getCurrentUser backend_ok (saveTokens r (id w1)) = (Inr u, w2)"
    and usr: "user ?w' = Some u"
    and keep: "localStorage (id w2) ''access_token'' = localStorage w2 ''access_token'' \<longrightarrow>
         localStorage ?w' ''access_token'' = Some (access_token r)"
    and unint: "(id :: world \<Rightarrow> world) = id \<and> (id :: world \<Rightarrow> world) = id \<longrightarrow>
         signIn backend_ok ''a@b.com'' ''Passw0rd!'' initial_world = (Inr (), ?w')
       \<and> events (added initial_world ?w') =
          [Fetch (SignInReq ''a@b.com'' ''Passw0rd!''), SetItem ''access_token'' (access_token r),
           SetItem ''refresh_token'' (refresh_token r),
           Fetch (GetCurrentUserReq (or_undefined (access_token r))),
           SetUser (Some u)]
       \<and> (\<forall>(ev, st, usr) \<in> set (added initial_world ?w').
             usr = user initial_world \<or> st ''access_token'' = Some (access_token r))
       \<and> (user initial_world = None \<longrightarrow>
           (\<forall>(ev, st, usr) \<in> set (added initial_world ?w').
              usr \<noteq> None \<longrightarrow> st ''access_token'' = Some (access_token r)))"
    by (elim exE conjE) (rule that, assumption+)
  from r a have r_eq: "r = example_tokens" by simp
  from u have u_eq: "u = example_user"
    by (simp add: api_getCurrentUser_def backend_ok_def)
  from keep have tok: "localStorage ?w' ''access_token'' = Some (access_token r)" by simp
  from unint have ev: "events (added initial_world ?w') =
          [Fetch (SignInReq ''a@b.com'' ''Passw0rd!''), SetItem ''access_token'' (access_token r),
           SetItem ''refresh_token'' (refresh_token r),
           Fetch (GetCurrentUserReq (or_undefined (access_token r))),
           SetUser (Some u)]" by simp
  show ?thesis
    using h n ev tok usr unfolding r_eq u_eq
    by (simp add: example_tokens_def or_undefined_def)
qed

text \<open>
  Without that proviso the invariant fails. In the initial world, let \<^verbatim>\<open>signOut\<close> run
  while the identity request of \<^verbatim>\<open>signIn\<close> is pending: the call resolves, the current
  user is populated, and local storage holds no access token.
\<close>
theorem signIn_interleaved_signOut_counterexample:
  "fst (signIn_interleaved backend_ok ''a@b.com'' ''Passw0rd!'' id signOut initial_world) = Inr ()
   \<and> user (snd (signIn_interleaved backend_ok ''a@b.com'' ''Passw0rd!'' id signOut initial_world))
       = Some example_user
   \<and> localStorage (snd (signIn_interleaved backend_ok ''a@b.com'' ''Passw0rd!'' id signOut initial_world))
       ''access_token'' = None"
  by (simp add: signIn_interleaved_def api_defs backend_ok_def setUser_def signOut_fields)

section \<open>Sign-out\<close>

text \<open>
  C4. Whatever the state before, after \<^verbatim>\<open>signOut\<close> the provider is not
  authenticated and the session store holds neither token. \<^verbatim>\<open>signOut\<close> has no
  failing branch (it is a total function of the state and returns no error), and calling
  it a second time changes nothing of the state: the second call only appends its own
  events to the ghost trace.
\<close>

theorem signOut_clears_and_idempotent:
  "isAuthenticated (signOut w) = False
   \<and> localStorage (signOut w) ''access_token'' = None
   \<and> localStorage (signOut w) ''refresh_token'' = None
   \<and> localStorage (signOut (signOut w)) = localStorage (signOut w)
   \<and> user (signOut (signOut w)) = user (signOut w)
   \<and> isLoading (signOut (signOut w)) = isLoading (signOut w)
   \<and> signOut (signOut w) = (signOut w)\<lparr>trace := trace (signOut (signOut w))\<rparr>"
  by (simp add: signOut_fields isAuthenticated_def)

section \<open>Refreshing the session\<close>

text \<open>
  C2, as the code has it. When local storage holds no refresh token, \<^verbatim>\<open>refreshAuth\<close>
  sends no request at all. The error it raises, with the message
  \<^verbatim>\<open>No refresh token available\<close>, is caught by its own \<^verbatim>\<open>catch\<close>, which logs it and
  signs out; the call then resolves normally and does not reject.
\<close>
theorem refreshAuth_without_refresh_token:
  assumes "localStorage w ''refresh_token'' = None"
  shows "fst (refreshAuth be w) = Inr ()
    \<and> requests (added w (snd (refreshAuth be w))) = []
    \<and> events (added w (snd (refreshAuth be w))) =
        [ConsoleError ''Token refresh error:'' (Error ''No refresh token available''),
         RemoveItem ''access_token'', RemoveItem ''refresh_token'', SetUser None]
    \<and> localStorage (snd (refreshAuth be w)) = localStorage (signOut w)
    \<and> user (snd (refreshAuth be w)) = None"
  using assms
  by (simp add: refreshAuth_def refreshAuth_try_def prim_defs added_def events_def)

theorem refreshAuth_without_refresh_token_witness:
  "localStorage initial_world ''refresh_token'' = None
   \<and> fst (refreshAuth backend_ok initial_world) = Inr ()
   \<and> requests (added initial_world (snd (refreshAuth backend_ok initial_world))) = []
   \<and> user (snd (refreshAuth backend_ok initial_world)) = None"
proof -
  have h: "localStorage initial_world ''refresh_token'' = None"
    by (simp add: initial_world_def)
  show ?thesis using refreshAuth_without_refresh_token [OF h, of backend_ok] h by simp
qed

text \<open>
  The statement that \<^verbatim>\<open>refreshAuth\<close> rejects fails in the initial world, which holds no
  refresh token: \<^verbatim>\<open>refreshAuth\<close> resolves there, and its result is not an error with the
  message \<^verbatim>\<open>no refresh token\<close>.
\<close>
theorem refreshAuth_without_refresh_token_counterexample:
  "localStorage initial_world ''refresh_token'' = None
   \<and> fst (refreshAuth backend_ok initial_world) = Inr ()
   \<and> fst (refreshAuth backend_ok initial_world) \<noteq> Inl (Error ''no refresh token'')"
  by (simp add: refreshAuth_def refreshAuth_try_def prim_defs initial_world_def)

text \<open>
  C6. When local storage holds a (non-empty) refresh token and the refresh request fails,
  \<^verbatim>\<open>refreshAuth\<close> ends in the state \<^verbatim>\<open>signOut\<close> gives: both tokens removed and no
  current user. It has sent the refresh request once and no other request: there is no retry.
\<close>
theorem refreshAuth_backend_failure:
  assumes "localStorage w ''refresh_token'' = Some tok" and "tok \<noteq> []"
    and "fst (api_refreshToken be tok w) = Inl err"
  shows "localStorage (snd (refreshAuth be w)) ''access_token'' = None
    \<and> localStorage (snd (refreshAuth be w)) ''refresh_token'' = None
    \<and> isAuthenticated (snd (refreshAuth be w)) = False
    \<and> localStorage (snd (refreshAuth be w)) = localStorage (signOut w)
    \<and> user (snd (refreshAuth be w)) = user (signOut w)
    \<and> requests (added w (snd (refreshAuth be w))) = [RefreshTokenReq tok]
    \<and> events (added w (snd (refreshAuth be w))) =
        [Fetch (RefreshTokenReq tok), ConsoleError ''Token refresh error:'' err,
         RemoveItem ''access_token'', RemoveItem ''refresh_token'', SetUser None]"
  using assms
  by (auto simp: refreshAuth_def refreshAuth_try_def prim_defs api_defs added_def events_def
      isAuthenticated_def split: prod.splits sum.splits)

theorem refreshAuth_backend_failure_witness:
  "localStorage stale_world ''refresh_token'' = Some ''rt-0'' \<and> ''rt-0'' \<noteq> []
   \<and> fst (api_refreshToken backend_down ''rt-0'' stale_world) = Inl (Error ''HTTP error! status: 500'')
   \<and> localStorage (snd (refreshAuth backend_down stale_world)) ''access_token'' = None
   \<and> localStorage (snd (refreshAuth backend_down stale_world)) ''refresh_token'' = None
   \<and> isAuthenticated (snd (refreshAuth backend_down stale_world)) = False
   \<and> requests (added stale_world (snd (refreshAuth backend_down stale_world))) = [RefreshTokenReq ''rt-0'']"
proof -
  have h1: "localStorage stale_world ''refresh_token'' = Some ''rt-0''"
    by (simp add: stale_world_def)
  have h2: "''rt-0'' \<noteq> []" by simp
  have h3: "fst (api_refreshToken backend_down ''rt-0'' stale_world) = Inl (Error ''HTTP error! status: 500'')"
    by (simp add: api_refreshToken_def backend_down_def)
  show ?thesis using refreshAuth_backend_failure [OF h1 h2 h3] h1 h3 by (simp add: signOut_fields)
qed

text \<open>
  C9. \<^verbatim>\<open>refreshAuth\<close> always resolves. When the refresh token is missing (or empty),
  when the refresh request fails, and when the identity fetch after a successful refresh
  fails, the final state has neither token and no current user; and whenever the body of its
  \<^verbatim>\<open>try\<close> fails with \<open>err\<close>, the final state is that of \<^verbatim>\<open>signOut\<close> run after the
  log of \<open>err\<close>.
\<close>
theorem refreshAuth_never_rejects:
  "fst (refreshAuth be w) = Inr ()
   \<and> (localStorage w ''refresh_token'' = None \<or> localStorage w ''refresh_token'' = Some [] \<longrightarrow>
        localStorage (snd (refreshAuth be w)) ''access_token'' = None
      \<and> localStorage (snd (refreshAuth be w)) ''refresh_token'' = None
      \<and> user (snd (refreshAuth be w)) = None)
   \<and> (localStorage w ''refresh_token'' = Some tok \<and> tok \<noteq> []
        \<and> fst (api_refreshToken be tok w) = Inl err \<longrightarrow>
        localStorage (snd (refreshAuth be w)) ''access_token'' = None
      \<and> localStorage (snd (refreshAuth be w)) ''refresh_token'' = None
      \<and> user (snd (refreshAuth be w)) = None)
   \<and> (localStorage w ''refresh_token'' = Some tok \<and> tok \<noteq> []
        \<and> api_refreshToken be tok w = (Inr r, w1)
        \<and> fst (api_getCurrentUser be (saveTokens r w1)) = Inl err \<longrightarrow>
        localStorage (snd (refreshAuth be w)) ''access_token'' = None
      \<and> localStorage (snd (refreshAuth be w)) ''refresh_token'' = None
      \<and> user (snd (refreshAuth be w)) = None)
   \<and> (fst (refreshAuth_try be w) = Inl err \<longrightarrow>
        snd (refreshAuth be w)
          = signOut (console_error ''Token refresh error:'' err (snd (refreshAuth_try be w))))"
  by (auto simp: refreshAuth_def refreshAuth_try_def prim_defs api_defs
      split: prod.splits sum.splits option.splits)

theorem refreshAuth_never_rejects_witness:
  "(localStorage initial_world ''refresh_token'' = None
     \<and> fst (refreshAuth backend_ok initial_world) = Inr ()
     \<and> user (snd (refreshAuth backend_ok initial_world)) = None)
   \<and> (localStorage stale_world ''refresh_token'' = Some ''rt-0'' \<and> ''rt-0'' \<noteq> []
     \<and> fst (api_refreshToken backend_down ''rt-0'' stale_world) = Inl (Error ''HTTP error! status: 500'')
     \<and> fst (refreshAuth backend_down stale_world) = Inr ()
     \<and> localStorage (snd (refreshAuth backend_down stale_world)) ''access_token'' = None
     \<and> user (snd (refreshAuth backend_down stale_world)) = None)
   \<and> (api_refreshToken backend_me_401 ''rt-0'' stale_world
         = (Inr example_tokens, emit (Fetch (RefreshTokenReq ''rt-0'')) stale_world)
     \<and> fst (api_getCurrentUser backend_me_401
           (saveTokens example_tokens (emit (Fetch (RefreshTokenReq ''rt-0'')) stale_world)))
         = Inl (Error ''HTTP error! status: 401'')
     \<and> fst (refreshAuth_try backend_me_401 stale_world) = Inl (Error ''HTTP error! status: 401'')
     \<and> fst (refreshAuth backend_me_401 stale_world) = Inr ()
     \<and> localStorage (snd (refreshAuth backend_me_401 stale_world)) ''access_token'' = None
     \<and> localStorage (snd (refreshAuth backend_me_401 stale_world)) ''refresh_token'' = None
     \<and> user (snd (refreshAuth backend_me_401 stale_world)) = None)"
proof -
  have a: "localStorage initial_world ''refresh_token'' = None"
    by (simp add: initial_world_def)
  have b1: "localStorage stale_world ''refresh_token'' = Some ''rt-0''"
    by (simp add: stale_world_def)
  have b2: "fst (api_refreshToken backend_down ''rt-0'' stale_world) = Inl (Error ''HTTP error! status: 500'')"
    by (simp add: api_refreshToken_def backend_down_def)
  have c1: "api_refreshToken backend_me_401 ''rt-0'' stale_world
         = (Inr example_tokens, emit (Fetch (RefreshTokenReq ''rt-0'')) stale_world)"
    by (simp add: api_refreshToken_def backend_me_401_def)
  have c2: "fst (api_getCurrentUser backend_me_401
           (saveTokens example_tokens (emit (Fetch (RefreshTokenReq ''rt-0'')) stale_world)))
         = Inl (Error ''HTTP error! status: 401'')"
    by (simp add: api_getCurrentUser_def backend_me_401_def)
  have c3: "fst (refreshAuth_try backend_me_401 stale_world) = Inl (Error ''HTTP error! status: 401'')"
    by (simp add: refreshAuth_try_def prim_defs api_defs backend_me_401_def stale_world_def)
  have p1: "fst (refreshAuth backend_ok initial_world) = Inr ()
     \<and> user (snd (refreshAuth backend_ok initial_world)) = None"
    using refreshAuth_never_rejects [of backend_ok initial_world] a by blast
  have p2: "fst (refreshAuth backend_down stale_world) = Inr ()
     \<and> localStorage (snd (refreshAuth backend_down stale_world)) ''access_token'' = None
     \<and> user (snd (refreshAuth backend_down stale_world)) = None"
    using refreshAuth_never_rejects
      [of backend_down stale_world "''rt-0''" "Error ''HTTP error! status: 500''"] b1 b2
    by blast
  have p3: "fst (refreshAuth backend_me_401 stale_world) = Inr ()
     \<and> localStorage (snd (refreshAuth backend_me_401 stale_world)) ''access_token'' = None
     \<and> localStorage (snd (refreshAuth backend_me_401 stale_world)) ''refresh_token'' = None
     \<and> user (snd (refreshAuth backend_me_401 stale_world)) = None"
    using refreshAuth_never_rejects
      [of backend_me_401 stale_world "''rt-0''" "Error ''HTTP error! status: 401''"
        example_tokens "emit (Fetch (RefreshTokenReq ''rt-0'')) stale_world"] b1 c1 c2
    by blast
  have n: "''rt-0'' \<noteq> []" by simp
  from a b1 n b2 c1 c2 c3 p1 p2 p3 show ?thesis by blast
qed

section \<open>Screen selection and the sign-out handler\<close>

text \<open>
  C3. For every value of \<^verbatim>\<open>isLoading\<close>, \<^verbatim>\<open>isAuthenticated\<close> and the flow flags,
  \<^verbatim>\<open>AppContent\<close> selects exactly one of the seven screens \<open>Loading\<close>,
  \<open>ConfirmEmail\<close>, \<open>SignIn\<close>, \<open>SignUp\<close>, \<open>WelcomeGate\<close>, \<open>Onboarding\<close>, \<open>Main\<close>;
  and whenever \<^verbatim>\<open>isLoading\<close> is true, it selects \<open>Loading\<close>, whatever the other flags.
\<close>
theorem AppContent_total:
  "AppContent authLoading authenticated f \<in> set screens
   \<and> (\<exists>!s. s \<in> set screens \<and> AppContent authLoading authenticated f = s)
   \<and> length (filter (\<lambda>s. AppContent authLoading authenticated f = s) screens) = 1
   \<and> (authLoading \<longrightarrow> AppContent authLoading authenticated f = Loading)"
proof -
  have mem: "AppContent authLoading authenticated f \<in> set screens"
    by (cases "AppContent authLoading authenticated f") (simp_all add: screens_def)
  have one: "\<exists>!s. s \<in> set screens \<and> AppContent authLoading authenticated f = s"
    using mem by blast
  have cnt: "length (filter (\<lambda>s. AppContent authLoading authenticated f = s) screens) = 1"
    by (cases "AppContent authLoading authenticated f") (simp_all add: screens_def)
  have load: "authLoading \<longrightarrow> AppContent authLoading authenticated f = Loading"
    by (simp add: AppContent_def)
  from mem one cnt load show ?thesis by blast
qed

theorem AppContent_total_witness:
  "AppContent True True raced_flow = Loading
   \<and> AppContent True False initial_flow = Loading
   \<and> length (filter (\<lambda>s. AppContent True True raced_flow = s) screens) = 1"
  using AppContent_total [of True True raced_flow] AppContent_total [of True False initial_flow]
  by (simp add: screens_def)

lemma handleSignOut_flags:
  "hasProfile (fst (handleSignOut (f, w))) = False
   \<and> showOnboarding (fst (handleSignOut (f, w))) = False
   \<and> showConfirmEmail (fst (handleSignOut (f, w))) = False
   \<and> signUpEmail (fst (handleSignOut (f, w))) = []
   \<and> showSignUp (fst (handleSignOut (f, w))) = showSignUp f
   \<and> snd (handleSignOut (f, w)) = signOut w"
  by (simp add: handleSignOut_def)

lemma raced_flow_fields:
  "showSignUp raced_flow = True" "showConfirmEmail raced_flow = False"
  "showOnboarding raced_flow = False" "hasProfile raced_flow = False"
  by (simp_all add: raced_flow_def handleBackToSignUp_def handleSignUpSuccess_def initial_flow_def)

lemma raced_world_authenticated: "isAuthenticated raced_world = True"
  by (simp add: raced_world_def signIn_def signIn_try_def api_defs setUser_def backend_ok_def
      isAuthenticated_def)

text \<open>
  C7. \<^verbatim>\<open>handleSignOut\<close> resets \<open>hasProfile\<close>, \<open>showOnboarding\<close>, \<open>showConfirmEmail\<close>
  and \<open>signUpEmail\<close>, and never writes \<open>showSignUp\<close>. So sign-out does not reset every
  flow flag where \<open>showSignUp\<close> is true: in the flow state \<open>raced_flow\<close> with the
  authenticated world \<open>raced_world\<close> the welcome card with its sign-out button is on screen;
  after \<^verbatim>\<open>handleSignOut\<close> the flag \<open>showSignUp\<close> is still true, the flow state is not
  the initial one, and the sign-up form is shown where the initial flow state shows the
  login form.
\<close>
theorem handleSignOut_keeps_showSignUp:
  "AppContent False (isAuthenticated raced_world) raced_flow = WelcomeGate
   \<and> showSignUp (fst (handleSignOut (raced_flow, raced_world))) = True
   \<and> fst (handleSignOut (raced_flow, raced_world)) \<noteq> initial_flow
   \<and> AppContent False (isAuthenticated (snd (handleSignOut (raced_flow, raced_world))))
        (fst (handleSignOut (raced_flow, raced_world))) = SignUp
   \<and> AppContent False False initial_flow = SignIn"
proof -
  have a: "AppContent False (isAuthenticated raced_world) raced_flow = WelcomeGate"
    by (simp add: AppContent_def raced_flow_fields raced_world_authenticated)
  have b: "showSignUp (fst (handleSignOut (raced_flow, raced_world))) = True"
    by (simp add: handleSignOut_def raced_flow_fields)
  have c: "fst (handleSignOut (raced_flow, raced_world)) \<noteq> initial_flow"
  proof
    assume "fst (handleSignOut (raced_flow, raced_world)) = initial_flow"
    then have "showSignUp (fst (handleSignOut (raced_flow, raced_world))) = showSignUp initial_flow"
      by simp
    with b show False by (simp add: initial_flow_def)
  qed
  have d: "AppContent False (isAuthenticated (snd (handleSignOut (raced_flow, raced_world))))
        (fst (handleSignOut (raced_flow, raced_world))) = SignUp"
    by (simp add: handleSignOut_def AppContent_def isAuthenticated_def signOut_fields
        raced_flow_fields)
  have e: "AppContent False False initial_flow = SignIn"
    by (simp add: AppContent_def initial_flow_def)
  from a b c d e show ?thesis by blast
qed

section \<open>Onboarding submission\<close>

text \<open>
  C8. In one run of the onboarding form's \<^verbatim>\<open>handleSubmit\<close>: the combined write is
  sent if and only if the auto-create call has succeeded. When the auto-create call fails,
  or when it succeeds and the combined write fails, the form shows the message of that
  error, \<^verbatim>\<open>onComplete\<close> is not called and the flow state of the owner, \<open>hasProfile\<close>
  included, is unchanged. (When both succeed, \<^verbatim>\<open>onComplete\<close> is called.)
\<close>
theorem onboarding_submit_sequencing:
  assumes "OnboardingForm_handleSubmit be onComplete (form, f, w) = (form', f', w')"
  shows "((\<exists>b pd pf. CompleteOnboardingReq b pd pf \<in> set (requests (added w w')))
          \<longleftrightarrow> fst (api_autoCreateProfile be w) = Inr ())
   \<and> (fst (api_autoCreateProfile be w) = Inl err \<longrightarrow>
        ob_error form' = message err \<and> f' = f \<and> hasProfile f' = hasProfile f
        \<and> Invoke OnComplete \<notin> set (events (added w w'))
        \<and> requests (added w w') = [AutoCreateProfileReq (getAuthHeaders w)])
   \<and> (api_autoCreateProfile be w = (Inr (), w1)
        \<and> fst (api_completeOnboarding be (profileData form) (preferencesData form) w1) = Inl err \<longrightarrow>
        ob_error form' = message err \<and> f' = f \<and> hasProfile f' = hasProfile f
        \<and> Invoke OnComplete \<notin> set (events (added w w'))
        \<and> requests (added w w') =
            [AutoCreateProfileReq (getAuthHeaders w),
             CompleteOnboardingReq (getAuthHeaders w) (profileData form) (preferencesData form)])
   \<and> (api_autoCreateProfile be w = (Inr (), w1)
        \<and> fst (api_completeOnboarding be (profileData form) (preferencesData form) w1) = Inr () \<longrightarrow>
        f' = onComplete f \<and> Invoke OnComplete \<in> set (events (added w w')))"
  using assms
  by (auto simp: OnboardingForm_handleSubmit_def OnboardingForm_submit_try_def api_defs
      getAuthHeaders_def getItem_def profileData_def preferencesData_def added_def events_def Let_def
      split: prod.splits sum.splits)

theorem onboarding_submit_sequencing_witness:
  "(fst (api_autoCreateProfile backend_down signed_in_world) = Inl (Error ''HTTP error! status: 500'')
     \<and> ob_error (fst (OnboardingForm_handleSubmit backend_down handleOnboardingComplete
           (example_onboarding, initial_flow, signed_in_world))) = ''HTTP error! status: 500''
     \<and> hasProfile (fst (snd (OnboardingForm_handleSubmit backend_down handleOnboardingComplete
           (example_onboarding, initial_flow, signed_in_world)))) = False
     \<and> requests (added signed_in_world (snd (snd (OnboardingForm_handleSubmit backend_down
           handleOnboardingComplete (example_onboarding, initial_flow, signed_in_world)))))
         = [AutoCreateProfileReq (Some ''at-0'')])
   \<and> (api_autoCreateProfile backend_onboarding_500 signed_in_world
         = (Inr (), emit (Fetch (AutoCreateProfileReq (Some ''at-0''))) signed_in_world)
     \<and> fst (api_completeOnboarding backend_onboarding_500 (profileData example_onboarding)
           (preferencesData example_onboarding)
           (emit (Fetch (AutoCreateProfileReq (Some ''at-0''))) signed_in_world))
         = Inl (Error ''HTTP error! status: 500'')
     \<and> ob_error (fst (OnboardingForm_handleSubmit backend_onboarding_500 handleOnboardingComplete
           (example_onboarding, initial_flow, signed_in_world))) = ''HTTP error! status: 500''
     \<and> hasProfile (fst (snd (OnboardingForm_handleSubmit backend_onboarding_500
           handleOnboardingComplete (example_onboarding, initial_flow, signed_in_world)))) = False)
   \<and> (api_autoCreateProfile backend_ok signed_in_world
         = (Inr (), emit (Fetch (AutoCreateProfileReq (Some ''at-0''))) signed_in_world)
     \<and> fst (api_completeOnboarding backend_ok (profileData example_onboarding)
           (preferencesData example_onboarding)
           (emit (Fetch (AutoCreateProfileReq (Some ''at-0''))) signed_in_world)) = Inr ()
     \<and> hasProfile (fst (snd (OnboardingForm_handleSubmit backend_ok handleOnboardingComplete
           (example_onboarding, initial_flow, signed_in_world)))) = True)"
proof -
  let ?run = "\<lambda>be. OnboardingForm_handleSubmit be handleOnboardingComplete
      (example_onboarding, initial_flow, signed_in_world)"
  have split: "\<And>be. ?run be = (fst (?run be), fst (snd (?run be)), snd (snd (?run be)))"
    by simp
  have hdr: "getAuthHeaders signed_in_world = Some ''at-0''"
    by (simp add: getAuthHeaders_def getItem_def signed_in_world_def)
  have a: "fst (api_autoCreateProfile backend_down signed_in_world) = Inl (Error ''HTTP error! status: 500'')"
    by (simp add: api_autoCreateProfile_def backend_down_def)
  have b1: "api_autoCreateProfile backend_onboarding_500 signed_in_world
         = (Inr (), emit (Fetch (AutoCreateProfileReq (Some ''at-0''))) signed_in_world)"
    by (simp add: api_autoCreateProfile_def backend_onboarding_500_def hdr)
  have b2: "fst (api_completeOnboarding backend_onboarding_500 (profileData example_onboarding)
           (preferencesData example_onboarding)
           (emit (Fetch (AutoCreateProfileReq (Some ''at-0''))) signed_in_world))
         = Inl (Error ''HTTP error! status: 500'')"
    by (simp add: api_completeOnboarding_def backend_onboarding_500_def)
  have c1: "api_autoCreateProfile backend_ok signed_in_world
         = (Inr (), emit (Fetch (AutoCreateProfileReq (Some ''at-0''))) signed_in_world)"
    by (simp add: api_autoCreateProfile_def backend_ok_def hdr)
  have c2: "fst (api_completeOnboarding backend_ok (profileData example_onboarding)
           (preferencesData example_onboarding)
           (emit (Fetch (AutoCreateProfileReq (Some ''at-0''))) signed_in_world)) = Inr ()"
    by (simp add: api_completeOnboarding_def backend_ok_def)
  have f0: "hasProfile initial_flow = False"
    by (simp add: initial_flow_def)
  have p1: "ob_error (fst (?run backend_down)) = ''HTTP error! status: 500''
     \<and> hasProfile (fst (snd (?run backend_down))) = False
     \<and> requests (added signed_in_world (snd (snd (?run backend_down))))
         = [AutoCreateProfileReq (Some ''at-0'')]"
    using onboarding_submit_sequencing [OF split, of backend_down "Error ''HTTP error! status: 500''"]
      a f0 hdr
    by simp
  have p2: "ob_error (fst (?run backend_onboarding_500)) = ''HTTP error! status: 500''
     \<and> hasProfile (fst (snd (?run backend_onboarding_500))) = False"
    using onboarding_submit_sequencing [OF split, of backend_onboarding_500
        "Error ''HTTP error! status: 500''"
        "emit (Fetch (AutoCreateProfileReq (Some ''at-0''))) signed_in_world"]
      b1 b2 f0
    by simp
  have p3: "hasProfile (fst (snd (?run backend_ok))) = True"
    using onboarding_submit_sequencing [OF split, of backend_ok _
        "emit (Fetch (AutoCreateProfileReq (Some ''at-0''))) signed_in_world"]
      c1 c2
    by (simp add: handleOnboardingComplete_def)
  from a b1 b2 c1 c2 p1 p2 p3 show ?thesis by blast
qed

section \<open>Sign-up validation\<close>

lemma SignUpForm_mismatch:
  assumes "su_password form \<noteq> su_confirmPassword form"
  shows "SignUpForm_handleSubmit be (form, w)
         = (form\<lparr>su_error := ''Passwords do not match'', su_success := []\<rparr>, w)"
  using assms by (simp add: SignUpForm_handleSubmit_def)

lemma SignUpForm_short:
  assumes "su_password form = su_confirmPassword form" and "length (su_password form) < 8"
  shows "SignUpForm_handleSubmit be (form, w)
         = (form\<lparr>su_error := ''Password must be at least 8 characters long'', su_success := []\<rparr>, w)"
  using assms by (simp add: SignUpForm_handleSubmit_def)

lemma SignUpForm_valid:
  assumes "su_password form = su_confirmPassword form" and "8 \<le> length (su_password form)"
  shows "requests (added w (snd (SignUpForm_handleSubmit be (form, w))))
         = [SignUpReq (su_email form) (su_password form) (or_undefined (su_name form))]"
  using assms
  by (simp add: SignUpForm_handleSubmit_def signUp_def api_signUp_def console_error_def added_def
      Let_def split: sum.splits)

text \<open>
  C10. In one run of the sign-up form's \<^verbatim>\<open>handleSubmit\<close>: when the two password
  fields differ, the world is untouched (no request is sent) and the form shows
  \<^verbatim>\<open>Passwords do not match\<close>; when they agree and the password has fewer than 8
  characters, the world is untouched and the form shows
  \<^verbatim>\<open>Password must be at least 8 characters long\<close>; a sign-up request is sent if and only
  if the fields agree and the password has at least 8 characters, and then it is the only
  request.
\<close>
theorem signUp_form_validates_first:
  assumes "SignUpForm_handleSubmit be (form, w) = (form', w')"
  shows "(su_password form \<noteq> su_confirmPassword form \<longrightarrow>
          w' = w \<and> su_error form' = ''Passwords do not match'')
   \<and> (su_password form = su_confirmPassword form \<and> length (su_password form) < 8 \<longrightarrow>
          w' = w \<and> su_error form' = ''Password must be at least 8 characters long'')
   \<and> (su_password form \<noteq> su_confirmPassword form \<or> length (su_password form) < 8 \<longrightarrow>
          requests (added w w') = [])
   \<and> ((\<exists>e p n. SignUpReq e p n \<in> set (requests (added w w')))
          \<longleftrightarrow> su_password form = su_confirmPassword form \<and> 8 \<le> length (su_password form))
   \<and> (su_password form = su_confirmPassword form \<and> 8 \<le> length (su_password form) \<longrightarrow>
          requests (added w w') =
            [SignUpReq (su_email form) (su_password form) (or_undefined (su_name form))])"
proof -
  consider (mismatch) "su_password form \<noteq> su_confirmPassword form"
    | (short) "su_password form = su_confirmPassword form" "length (su_password form) < 8"
    | (valid) "su_password form = su_confirmPassword form" "8 \<le> length (su_password form)"
    by linarith
  then show ?thesis
  proof cases
    case mismatch
    from SignUpForm_mismatch [OF mismatch, of be w] assms
    have "w' = w" and "su_error form' = ''Passwords do not match''" by auto
    with mismatch show ?thesis by simp
  next
    case short
    from SignUpForm_short [OF short, of be w] assms
    have "w' = w" and "su_error form' = ''Password must be at least 8 characters long''" by auto
    with short show ?thesis by simp
  next
    case valid
    from SignUpForm_valid [OF valid, of w be] assms
    have "requests (added w w')
          = [SignUpReq (su_email form) (su_password form) (or_undefined (su_name form))]"
      by simp
    with valid show ?thesis by auto
  qed
qed

theorem signUp_form_validates_first_witness:
  "(su_password (signup_form ''Passw0rd!'' ''Passw0rd?'') \<noteq> su_confirmPassword (signup_form ''Passw0rd!'' ''Passw0rd?'')
     \<and> snd (SignUpForm_handleSubmit backend_ok (signup_form ''Passw0rd!'' ''Passw0rd?'', initial_world)) = initial_world
     \<and> su_error (fst (SignUpForm_handleSubmit backend_ok (signup_form ''Passw0rd!'' ''Passw0rd?'', initial_world)))
         = ''Passwords do not match'')
   \<and> (length (su_password (signup_form ''short'' ''short'')) < 8
     \<and> snd (SignUpForm_handleSubmit backend_ok (signup_form ''short'' ''short'', initial_world)) = initial_world
     \<and> su_error (fst (SignUpForm_handleSubmit backend_ok (signup_form ''short'' ''short'', initial_world)))
         = ''Password must be at least 8 characters long'')
   \<and> (8 \<le> length (su_password (signup_form ''Passw0rd!'' ''Passw0rd!''))
     \<and> requests (added initial_world
          (snd (SignUpForm_handleSubmit backend_ok (signup_form ''Passw0rd!'' ''Passw0rd!'', initial_world))))
         = [SignUpReq ''a@b.com'' ''Passw0rd!'' None])"
proof -
  have a: "su_password (signup_form ''Passw0rd!'' ''Passw0rd?'') \<noteq> su_confirmPassword (signup_form ''Passw0rd!'' ''Passw0rd?'')"
    by (simp add: signup_form_def)
  have b: "su_password (signup_form ''short'' ''short'') = su_confirmPassword (signup_form ''short'' ''short'')
     \<and> length (su_password (signup_form ''short'' ''short'')) < 8"
    by (simp add: signup_form_def)
  have c: "su_password (signup_form ''Passw0rd!'' ''Passw0rd!'') = su_confirmPassword (signup_form ''Passw0rd!'' ''Passw0rd!'')
     \<and> 8 \<le> length (su_password (signup_form ''Passw0rd!'' ''Passw0rd!''))"
    by (simp add: signup_form_def)
  have d: "su_email (signup_form ''Passw0rd!'' ''Passw0rd!'') = ''a@b.com''
     \<and> su_password (signup_form ''Passw0rd!'' ''Passw0rd!'') = ''Passw0rd!''
     \<and> or_undefined (su_name (signup_form ''Passw0rd!'' ''Passw0rd!'')) = None"
    by (simp add: signup_form_def or_undefined_def)
  have p1: "snd (SignUpForm_handleSubmit backend_ok (signup_form ''Passw0rd!'' ''Passw0rd?'', initial_world)) = initial_world
     \<and> su_error (fst (SignUpForm_handleSubmit backend_ok (signup_form ''Passw0rd!'' ''Passw0rd?'', initial_world)))
         = ''Passwords do not match''"
    using signUp_form_validates_first [where be = backend_ok and form = "signup_form ''Passw0rd!'' ''Passw0rd?''"
        and w = initial_world, OF prod.collapse [symmetric]] a
    by blast
  have p2: "snd (SignUpForm_handleSubmit backend_ok (signup_form ''short'' ''short'', initial_world)) = initial_world
     \<and> su_error (fst (SignUpForm_handleSubmit backend_ok (signup_form ''short'' ''short'', initial_world)))
         = ''Password must be at least 8 characters long''"
    using signUp_form_validates_first [where be = backend_ok and form = "signup_form ''short'' ''short''"
        and w = initial_world, OF prod.collapse [symmetric]] b
    by blast
  have p3: "requests (added initial_world
          (snd (SignUpForm_handleSubmit backend_ok (signup_form ''Passw0rd!'' ''Passw0rd!'', initial_world))))
         = [SignUpReq ''a@b.com'' ''Passw0rd!'' None]"
    using signUp_form_validates_first [where be = backend_ok and form = "signup_form ''Passw0rd!'' ''Passw0rd!''"
        and w = initial_world, OF prod.collapse [symmetric]] c d
    by simp
  from a b c p1 p2 p3 show ?thesis by blast
qed

end
